theory Spec2Isabelle
  imports Main
begin

section \<open>The database\<close>

text \<open>
  The ledger keeps its state in database tables and changes it only inside the
  \<^verbatim>\<open>save\<close> methods of the models (\<^verbatim>\<open>apps/accounts/models.py\<close>,
  \<^verbatim>\<open>apps/expenses/models.py\<close>, \<^verbatim>\<open>apps/income/models.py\<close>) and the views calling them.

  A monetary column is \<^verbatim>\<open>DecimalField(decimal_places=2)\<close>: an exact decimal with two
  fraction digits. It is modelled as the integer number of hundredths, so \<open>50000\<close> is
  500.00. Sums, differences and comparisons of such decimals are exact, and so are the
  integer operations that model them. Amounts with more than two fraction digits and
  the digit limit of the columns (\<^verbatim>\<open>max_digits\<close>) are outside the model.
\<close>

type_synonym money = int

text \<open>
  A table maps primary keys to rows and hands out the key of the next inserted row.
  Saving an instance that has no primary key inserts a row; saving one that has a key
  writes the row under that key.
\<close>

record 'a table =
  rows :: "nat \<rightharpoonup> 'a"
  next_pk :: nat

definition get_row :: "'a table \<Rightarrow> nat \<Rightarrow> 'a option" where
  "get_row t k = rows t k"

definition insert_row :: "'a table \<Rightarrow> 'a \<Rightarrow> 'a table" where
  "insert_row t r = t\<lparr>rows := (rows t)(next_pk t \<mapsto> r), next_pk := Suc (next_pk t)\<rparr>"

definition update_row :: "'a table \<Rightarrow> nat \<Rightarrow> 'a \<Rightarrow> 'a table" where
  "update_row t k r = t\<lparr>rows := (rows t)(k \<mapsto> r)\<rparr>"

definition super_save :: "'a table \<Rightarrow> nat option \<Rightarrow> 'a \<Rightarrow> 'a table" where
  "super_save t pk self = (case pk of None \<Rightarrow> insert_row t self | Some k \<Rightarrow> update_row t k self)"

text \<open>
  \<^verbatim>\<open>not self.pk\<close>: true of an instance without a primary key and of one whose key
  is 0. The database numbers the rows it inserts from 1, so only an instance that was
  given the key 0 by hand has it.
\<close>

definition unsaved :: "nat option \<Rightarrow> bool" where
  "unsaved pk = (pk = None \<or> pk = Some 0)"

text \<open>A nullable foreign key that names a row the table does not hold.\<close>

definition dangling :: "'a table \<Rightarrow> nat option \<Rightarrow> bool" where
  "dangling t fk = (case fk of None \<Rightarrow> False | Some k \<Rightarrow> get_row t k = None)"

text \<open>
  The rows. Foreign keys are the primary keys of the rows they refer to, users are
  numbered. Columns that no modelled operation reads (names, currency, dates, tags,
  recurrence) are left out.
\<close>

record account =
  account_user :: nat
  balance :: money
  account_is_active :: bool

record category =
  category_user :: nat

record contact =
  contact_user :: nat

record expense =
  expense_user :: nat
  expense_account :: nat
  expense_category :: "nat option"
  expense_title :: string
  expense_amount :: money
  expense_is_active :: bool

record income =
  income_user :: nat
  income_account :: nat
  income_category :: "nat option"
  income_amount :: money
  income_is_active :: bool

record transfer =
  transfer_user :: nat
  from_account :: nat
  to_account :: nat
  transfer_amount :: money

record debt =
  debt_user :: nat
  debt_contact :: nat
  initial_amount :: money
  remaining_amount :: money
  debt_type :: string
  debt_account :: nat
  is_settled :: bool

record debt_payment =
  payment_debt :: nat
  payment_account :: nat
  amount_paid :: money

record db =
  accounts :: "account table"
  categories :: "category table"
  contacts :: "contact table"
  expenses :: "expense table"
  incomes :: "income table"
  transfers :: "transfer table"
  debts :: "debt table"
  payments :: "debt_payment table"

section \<open>Exceptions and transactions\<close>

text \<open>
  \<open>InsufficientFunds\<close> is the \<^verbatim>\<open>ValidationError\<close> of \<^verbatim>\<open>Account.withdraw\<close>,
  \<open>OverPayment\<close> the one of \<^verbatim>\<open>DebtPayment.save\<close>, \<open>SameAccount\<close> the error message
  of the transfer views, \<open>Http404\<close> what \<^verbatim>\<open>get_object_or_404\<close> raises,
  \<open>DoesNotExist\<close> what following a foreign key to a missing row raises and
  \<open>IntegrityError\<close> the database's refusal of a row with a dangling foreign key.

  A raised exception carries the database as it is at the raise: what was written
  before stays written unless a transaction rolls it back.
\<close>

datatype error =
  InsufficientFunds | OverPayment | SameAccount | Http404 | DoesNotExist | IntegrityError

type_synonym outcome = "(error \<times> db) + db"

definition and_then :: "outcome \<Rightarrow> (db \<Rightarrow> outcome) \<Rightarrow> outcome" where
  "and_then r f = (case r of Inl x \<Rightarrow> Inl x | Inr d \<Rightarrow> f d)"

text \<open>\<^verbatim>\<open>with transaction.atomic():\<close> an exception leaving the block restores the database.\<close>

definition atomic :: "(db \<Rightarrow> outcome) \<Rightarrow> db \<Rightarrow> outcome" where
  "atomic body d = (case body d of Inl (e, partial) \<Rightarrow> Inl (e, d) | Inr d' \<Rightarrow> Inr d')"

text \<open>The database after a request, whether it succeeded or not, and its error.\<close>

definition state_after :: "outcome \<Rightarrow> db" where
  "state_after r = (case r of Inl (e, d) \<Rightarrow> d | Inr d \<Rightarrow> d)"

definition failure :: "outcome \<Rightarrow> error option" where
  "failure r = (case r of Inl (e, d) \<Rightarrow> Some e | Inr d \<Rightarrow> None)"

text \<open>\<^verbatim>\<open>get_object_or_404(Model, id=k, ...)\<close>: \<open>None\<close> stands for the raised \<^verbatim>\<open>Http404\<close>.\<close>

definition get_object_or_404 :: "'a table \<Rightarrow> nat \<Rightarrow> ('a \<Rightarrow> bool) \<Rightarrow> 'a option" where
  "get_object_or_404 t k p =
     (case get_row t k of None \<Rightarrow> None | Some r \<Rightarrow> if p r then Some r else None)"

section \<open>Account\<close>

text \<open>
  An instance is its primary key and its fields. \<^verbatim>\<open>self.save()\<close> writes the fields
  to the row. \<^verbatim>\<open>Decimal(str(amount))\<close> is the amount itself.
\<close>

definition Account_save :: "nat \<times> account \<Rightarrow> db \<Rightarrow> db" where
  "Account_save self d = d\<lparr>accounts := update_row (accounts d) (fst self) (snd self)\<rparr>"

definition deposit :: "nat \<times> account \<Rightarrow> money \<Rightarrow> db \<Rightarrow> outcome" where
  "deposit self amount d =
     Inr (Account_save (fst self, (snd self)\<lparr>balance := balance (snd self) + amount\<rparr>) d)"

definition withdraw :: "nat \<times> account \<Rightarrow> money \<Rightarrow> db \<Rightarrow> outcome" where
  "withdraw self amount d =
     (let de_balance = balance (snd self); de_amount = amount in
      if de_balance < de_amount then Inl (InsufficientFunds, d)
      else Inr (Account_save (fst self, (snd self)\<lparr>balance := de_balance - de_amount\<rparr>) d))"

text \<open>
  \<^verbatim>\<open>self.account\<close>: the related account, read from the database. In every modelled
  request the instance is read in the same transaction right before it is used, so it
  holds the fields of the current row.
\<close>

definition related_account :: "nat \<Rightarrow> (nat \<times> account \<Rightarrow> db \<Rightarrow> outcome) \<Rightarrow> db \<Rightarrow> outcome" where
  "related_account k f d =
     (case get_row (accounts d) k of None \<Rightarrow> Inl (DoesNotExist, d) | Some a \<Rightarrow> f (k, a) d)"

section \<open>Expense and Income\<close>

text \<open>
  \<^verbatim>\<open>Expense.save\<close> runs in a transaction, \<^verbatim>\<open>Income.save\<close> does not: what it
  has deposited stays deposited if the row is then refused. The database refuses a new
  row whose category does not exist; the account has been followed before, and users
  are taken to exist.
\<close>

definition Expense_save :: "nat option \<Rightarrow> expense \<Rightarrow> db \<Rightarrow> outcome" where
  "Expense_save pk self =
     atomic (\<lambda>d.
       and_then
         (if unsaved pk
          then related_account (expense_account self) (\<lambda>acc. withdraw acc (expense_amount self)) d
          else Inr d)
         (\<lambda>d. if unsaved pk \<and> dangling (categories d) (expense_category self)
              then Inl (IntegrityError, d)
              else Inr (d\<lparr>expenses := super_save (expenses d) pk self\<rparr>)))"


section \<open>Transfer\<close>

definition Transfer_save :: "nat option \<Rightarrow> transfer \<Rightarrow> db \<Rightarrow> outcome" where
  "Transfer_save pk self =
     atomic (\<lambda>d.
       and_then
         (if unsaved pk
          then and_then
                 (related_account (from_account self) (\<lambda>acc. withdraw acc (transfer_amount self)) d)
                 (related_account (to_account self) (\<lambda>acc. deposit acc (transfer_amount self)))
          else Inr d)
         (\<lambda>d. Inr (d\<lparr>transfers := super_save (transfers d) pk self\<rparr>)))"

section \<open>Debt and DebtPayment\<close>

text \<open>
  \<^verbatim>\<open>Debt.save\<close>. The contact is a foreign key that the code never follows: the
  database refuses a new row whose contact does not exist.
\<close>

definition Debt_save :: "nat option \<Rightarrow> debt \<Rightarrow> db \<Rightarrow> outcome" where
  "Debt_save pk self =
     atomic (\<lambda>d.
       let self' = (if unsaved pk then self\<lparr>remaining_amount := initial_amount self\<rparr> else self) in
       and_then
         (if unsaved pk
          then (if debt_type self' = ''payable''
                then related_account (debt_account self') (\<lambda>acc. deposit acc (initial_amount self')) d
                else related_account (debt_account self') (\<lambda>acc. withdraw acc (initial_amount self')) d)
          else Inr d)
         (\<lambda>d. if unsaved pk \<and> get_row (contacts d) (debt_contact self') = None
              then Inl (IntegrityError, d)
              else Inr (d\<lparr>debts := super_save (debts d) pk self'\<rparr>)))"

text \<open>
  \<^verbatim>\<open>DebtPayment.save\<close>. \<^verbatim>\<open>self.debt\<close> is the debt the view has just read, that is,
  the current row.
\<close>

definition DebtPayment_save :: "nat option \<Rightarrow> debt_payment \<Rightarrow> db \<Rightarrow> outcome" where
  "DebtPayment_save pk self =
     atomic (\<lambda>d.
       case get_row (debts d) (payment_debt self) of
         None \<Rightarrow> Inl (DoesNotExist, d)
       | Some debt0 \<Rightarrow>
           if amount_paid self > remaining_amount debt0 then Inl (OverPayment, d)
           else
             let debt1 = debt0\<lparr>remaining_amount := remaining_amount debt0 - amount_paid self\<rparr>;
                 debt2 = (if remaining_amount debt1 = 0 then debt1\<lparr>is_settled := True\<rparr> else debt1)
             in and_then (Debt_save (Some (payment_debt self)) debt2 d)
                  (\<lambda>d. and_then
                     (if debt_type debt2 = ''payable''
                      then related_account (payment_account self) (\<lambda>acc. withdraw acc (amount_paid self)) d
                      else related_account (payment_account self) (\<lambda>acc. deposit acc (amount_paid self)) d)
                     (\<lambda>d. Inr (d\<lparr>payments := super_save (payments d) pk self\<rparr>))))"

section \<open>Views\<close>

text \<open>
  A view takes the acting user and the posted values and returns the outcome of the
  request. Posted keys are taken as parsed numbers and posted amounts as parsed
  decimals with two fraction digits.
\<close>

text \<open>\<^verbatim>\<open>accounts_dashboard\<close>, action \<^verbatim>\<open>transfer_money\<close>.\<close>

definition transfer_money :: "nat \<Rightarrow> nat \<Rightarrow> nat \<Rightarrow> money \<Rightarrow> db \<Rightarrow> outcome" where
  "transfer_money user from_id to_id amount =
     atomic (\<lambda>d.
       case get_object_or_404 (accounts d) from_id (\<lambda>a. account_user a = user) of
         None \<Rightarrow> Inl (Http404, d)
       | Some from_acc \<Rightarrow>
          (case get_object_or_404 (accounts d) to_id (\<lambda>a. account_user a = user) of
             None \<Rightarrow> Inl (Http404, d)
           | Some to_acc \<Rightarrow>
               if from_id = to_id then Inl (SameAccount, d)
               else Transfer_save None
                      \<lparr>transfer_user = user, from_account = from_id, to_account = to_id,
                       transfer_amount = amount\<rparr> d))"

text \<open>
  \<^verbatim>\<open>process_transfer\<close>. The view compares the two posted keys as texts and hands
  them to the new transfer as they are; the database reads the keys from the texts
  when \<^verbatim>\<open>Transfer.save\<close> follows them. A posted key is therefore given as its text
  together with the key read from it: \<open>(''01'', 1)\<close> is the posted text \<^verbatim>\<open>01\<close>.
\<close>

definition process_transfer ::
    "nat \<Rightarrow> string \<times> nat \<Rightarrow> string \<times> nat \<Rightarrow> money \<Rightarrow> db \<Rightarrow> outcome" where
  "process_transfer user from_id to_id amount d =
     (if fst from_id = fst to_id then Inl (SameAccount, d)
      else Transfer_save None
             \<lparr>transfer_user = user, from_account = snd from_id, to_account = snd to_id,
              transfer_amount = amount\<rparr> d)"

text \<open>
  \<^verbatim>\<open>debt_dashboard\<close>, actions \<^verbatim>\<open>add_debt\<close> and \<^verbatim>\<open>make_payment\<close>. The new debt is
  built without a remaining amount, which \<^verbatim>\<open>Debt.save\<close> sets.
\<close>

definition add_debt :: "nat \<Rightarrow> nat \<Rightarrow> nat \<Rightarrow> money \<Rightarrow> string \<Rightarrow> db \<Rightarrow> outcome" where
  "add_debt user contact_id account_id amount dtype =
     atomic (Debt_save None
       \<lparr>debt_user = user, debt_contact = contact_id, initial_amount = amount,
        remaining_amount = 0, debt_type = dtype, debt_account = account_id,
        is_settled = False\<rparr>)"

definition make_payment :: "nat \<Rightarrow> nat \<Rightarrow> nat \<Rightarrow> money \<Rightarrow> db \<Rightarrow> outcome" where
  "make_payment user debt_id account_id amount =
     atomic (\<lambda>d.
       case get_object_or_404 (debts d) debt_id (\<lambda>x. debt_user x = user) of
         None \<Rightarrow> Inl (Http404, d)
       | Some debt_obj \<Rightarrow>
           DebtPayment_save None
             \<lparr>payment_debt = debt_id, payment_account = account_id, amount_paid = amount\<rparr> d)"

text \<open>\<^verbatim>\<open>add_expense\<close>.\<close>

definition add_expense :: "nat \<Rightarrow> money \<Rightarrow> nat \<Rightarrow> nat \<Rightarrow> string \<Rightarrow> db \<Rightarrow> outcome" where
  "add_expense user amount account_id category_id title =
     atomic (\<lambda>d.
       case get_object_or_404 (accounts d) account_id (\<lambda>a. account_user a = user) of
         None \<Rightarrow> Inl (Http404, d)
       | Some account \<Rightarrow>
          (case get_object_or_404 (categories d) category_id (\<lambda>c. category_user c = user) of
             None \<Rightarrow> Inl (Http404, d)
           | Some category \<Rightarrow>
               Expense_save None
                 \<lparr>expense_user = user, expense_account = account_id,
                  expense_category = Some category_id, expense_title = title,
                  expense_amount = amount, expense_is_active = True\<rparr> d))"

text \<open>\<^verbatim>\<open>delete_expense\<close>.\<close>

definition delete_expense :: "nat \<Rightarrow> nat \<Rightarrow> db \<Rightarrow> outcome" where
  "delete_expense user pk d0 =
     (case get_object_or_404 (expenses d0) pk (\<lambda>e. expense_user e = user) of
        None \<Rightarrow> Inl (Http404, d0)
      | Some expense \<Rightarrow>
          atomic (\<lambda>d.
            and_then
              (related_account (expense_account expense) (\<lambda>acc. deposit acc (expense_amount expense)) d)
              (Expense_save (Some pk) (expense\<lparr>expense_is_active := False\<rparr>))) d0)"

section \<open>Reading a balance\<close>

definition balance_of :: "db \<Rightarrow> nat \<Rightarrow> money option" where
  "balance_of d k = map_option balance (get_row (accounts d) k)"

section \<open>A sample ledger\<close>

text \<open>
  User 1 holds accounts 1 (500.00) and 2 (0.00), category 1, contact 1, an expense of
  100.00 on account 1, and three debts: 100.00 receivable and untouched, 1000.00
  payable and settled, 1000.00 payable with 600.00 remaining. User 2 holds account 3
  (1000.00) and contact 2.
\<close>

definition sample :: db where
  "sample =
     \<lparr>accounts =
        \<lparr>rows = [1 \<mapsto> \<lparr>account_user = 1, balance = 50000, account_is_active = True\<rparr>,
                 2 \<mapsto> \<lparr>account_user = 1, balance = 0, account_is_active = True\<rparr>,
                 3 \<mapsto> \<lparr>account_user = 2, balance = 100000, account_is_active = True\<rparr>],
         next_pk = 4\<rparr>,
      categories = \<lparr>rows = [1 \<mapsto> \<lparr>category_user = 1\<rparr>], next_pk = 2\<rparr>,
      contacts =
        \<lparr>rows = [1 \<mapsto> \<lparr>contact_user = 1\<rparr>, 2 \<mapsto> \<lparr>contact_user = 2\<rparr>], next_pk = 3\<rparr>,
      expenses =
        \<lparr>rows = [1 \<mapsto> \<lparr>expense_user = 1, expense_account = 1, expense_category = Some 1,
                       expense_title = ''Lunch'', expense_amount = 10000,
                       expense_is_active = True\<rparr>],
         next_pk = 2\<rparr>,
      incomes = \<lparr>rows = Map.empty, next_pk = 1\<rparr>,
      transfers = \<lparr>rows = Map.empty, next_pk = 1\<rparr>,
      debts =
        \<lparr>rows = [1 \<mapsto> \<lparr>debt_user = 1, debt_contact = 1, initial_amount = 10000,
                       remaining_amount = 10000, debt_type = ''receivable'', debt_account = 2,
                       is_settled = False\<rparr>,
                 2 \<mapsto> \<lparr>debt_user = 1, debt_contact = 1, initial_amount = 100000,
                       remaining_amount = 0, debt_type = ''payable'', debt_account = 1,
                       is_settled = True\<rparr>,
                 3 \<mapsto> \<lparr>debt_user = 1, debt_contact = 1, initial_amount = 100000,
                       remaining_amount = 60000, debt_type = ''payable'', debt_account = 1,
                       is_settled = False\<rparr>],
         next_pk = 4\<rparr>,
      payments = \<lparr>rows = Map.empty, next_pk = 1\<rparr>\<rparr>"

section \<open>Tables and outcomes\<close>

lemma get_row_update_row [simp]:
  "get_row (update_row t k r) j = (if j = k then Some r else get_row t j)"
  by (simp add: get_row_def update_row_def)

lemma get_row_insert_row [simp]:
  "get_row (insert_row t r) j = (if j = next_pk t then Some r else get_row t j)"
  by (simp add: get_row_def insert_row_def)

lemma unsaved_simps [simp]:
  "unsaved None"
  "unsaved (Some k) = (k = 0)"
  by (simp_all add: unsaved_def)

lemma and_then_simps [simp]:
  "and_then (Inr d) f = f d"
  "and_then (Inl x) f = Inl x"
  by (simp_all add: and_then_def)

lemma state_after_simps [simp]:
  "state_after (Inr d) = d"
  "state_after (Inl (e, d)) = d"
  by (simp_all add: state_after_def)

lemma failure_simps [simp]:
  "failure (Inr d) = None"
  "failure (Inl (e, d)) = Some e"
  by (simp_all add: failure_def)

section \<open>What the account methods write\<close>


lemma deposit_related:
  "get_row (accounts d) k = Some a \<Longrightarrow>
   related_account k (\<lambda>acc. deposit acc amount) d =
     Inr (d\<lparr>accounts := update_row (accounts d) k (a\<lparr>balance := balance a + amount\<rparr>)\<rparr>)"
  by (simp add: related_account_def deposit_def Account_save_def)

section \<open>What the save methods write\<close>


lemma Expense_save_old:
  "k \<noteq> 0 \<Longrightarrow> Expense_save (Some k) e d = Inr (d\<lparr>expenses := update_row (expenses d) k e\<rparr>)"
  by (simp add: Expense_save_def atomic_def super_save_def)





section \<open>Balances\<close>

lemma balance_of_update [simp]:
  "balance_of (d\<lparr>accounts := update_row (accounts d) j a\<rparr>) k =
     (if k = j then Some (balance a) else balance_of d k)"
  by (simp add: balance_of_def)

text \<open>
  C1 does not hold for the code. \<^verbatim>\<open>make_payment\<close> and \<^verbatim>\<open>DebtPayment.save\<close> never
  look at the sign of the amount. User 1 posts a payment of -50.00 on the own
  receivable debt 1 into the own account 2, which holds 0.00: the payment is below
  what remains, so it is recorded, and its deposit takes the balance to -50.00.
\<close>

theorem negative_payment_overdraws:
  "balance_of sample 2 = Some 0
   \<and> failure (make_payment 1 1 2 (- 5000) sample) = None
   \<and> balance_of (state_after (make_payment 1 1 2 (- 5000) sample)) 2 = Some (- 5000)"
  by (simp add: sample_def balance_of_def make_payment_def get_object_or_404_def
        DebtPayment_save_def Debt_save_def atomic_def Let_def
        related_account_def withdraw_def deposit_def Account_save_def
        get_row_def update_row_def insert_row_def super_save_def)

section \<open>Transfers\<close>



text \<open>
  C7 does not hold for the code. \<^verbatim>\<open>process_transfer\<close> compares the posted texts of
  the two keys. User 1 posts a transfer of 200.00 from \<^verbatim>\<open>1\<close> to \<^verbatim>\<open>01\<close>, two
  spellings of the key of account 1: the request succeeds and stores a transfer from
  account 1 to itself. The dashboard's \<^verbatim>\<open>transfer_money\<close>, which compares the
  accounts, answers a transfer from account 1 to itself with \<open>SameAccount\<close>.
\<close>

theorem self_transfer_accepted:
  "failure (process_transfer 1 (''1'', 1) (''01'', 1) 20000 sample) = None
   \<and> get_row (transfers (state_after
         (process_transfer 1 (''1'', 1) (''01'', 1) 20000 sample))) 1 =
       Some \<lparr>transfer_user = 1, from_account = 1, to_account = 1, transfer_amount = 20000\<rparr>
   \<and> get_row (transfers sample) 1 = None
   \<and> process_transfer 1 (''1'', 1) (''1'', 1) 20000 sample = Inl (SameAccount, sample)
   \<and> transfer_money 1 1 1 20000 sample = Inl (SameAccount, sample)"
  by (simp add: sample_def process_transfer_def transfer_money_def get_object_or_404_def
        Transfer_save_def atomic_def related_account_def withdraw_def deposit_def
        Account_save_def get_row_def update_row_def insert_row_def super_save_def)

section \<open>Debt payments\<close>

text \<open>
  C3. A payment whose amount exceeds what currently remains of the debt fails with
  \<open>OverPayment\<close>, whatever the initial amount of the debt is, and the database stays as
  it was: the remaining amount, the settled flag, every account balance and the
  payment records are unchanged. This holds for \<^verbatim>\<open>DebtPayment.save\<close> and for the
  \<^verbatim>\<open>make_payment\<close> request of the debt's owner.
\<close>

theorem overpayment_rejected:
  assumes "get_row (debts d) k = Some x"
      and "remaining_amount x < amount"
  shows "DebtPayment_save pk \<lparr>payment_debt = k, payment_account = acct, amount_paid = amount\<rparr> d
           = Inl (OverPayment, d)
       \<and> make_payment (debt_user x) k acct amount d = Inl (OverPayment, d)"
  using assms
  by (simp add: make_payment_def atomic_def get_object_or_404_def DebtPayment_save_def)

theorem overpayment_rejected_witness:
  "get_row (debts sample) 3 =
     Some \<lparr>debt_user = 1, debt_contact = 1, initial_amount = 100000, remaining_amount = 60000,
           debt_type = ''payable'', debt_account = 1, is_settled = False\<rparr>
   \<and> (60000::int) < 80000
   \<and> make_payment 1 3 1 80000 sample = Inl (OverPayment, sample)
   \<and> state_after (make_payment 1 3 1 80000 sample) = sample"
proof -
  let ?x = "\<lparr>debt_user = 1, debt_contact = 1, initial_amount = 100000, remaining_amount = 60000,
            debt_type = ''payable'', debt_account = 1, is_settled = False\<rparr>"
  have row: "get_row (debts sample) 3 = Some ?x" by (simp add: sample_def get_row_def)
  have less: "remaining_amount ?x < 80000" by simp
  from overpayment_rejected [OF row less, of None 1] row show ?thesis by simp
qed

text \<open>
  C4 does not hold for the code, by the missing check of the sign that C1 fails by.
  User 1 posts a payment of -50.00 on the own settled debt 2, of which 0.00 remains:
  the payment is recorded, what remains grows to 50.00 and the debt stays marked
  settled.
\<close>

theorem negative_payment_reopens_debt:
  "get_row (debts sample) 2 =
     Some \<lparr>debt_user = 1, debt_contact = 1, initial_amount = 100000, remaining_amount = 0,
           debt_type = ''payable'', debt_account = 1, is_settled = True\<rparr>
   \<and> failure (make_payment 1 2 1 (- 5000) sample) = None
   \<and> get_row (debts (state_after (make_payment 1 2 1 (- 5000) sample))) 2 =
     Some \<lparr>debt_user = 1, debt_contact = 1, initial_amount = 100000, remaining_amount = 5000,
           debt_type = ''payable'', debt_account = 1, is_settled = True\<rparr>"
  by (simp add: sample_def make_payment_def get_object_or_404_def
        DebtPayment_save_def Debt_save_def atomic_def Let_def
        related_account_def withdraw_def deposit_def Account_save_def
        get_row_def update_row_def insert_row_def super_save_def)

section \<open>Ledger entries\<close>



text \<open>
  C10. \<^verbatim>\<open>delete_expense\<close> does not look at the active flag: each request of the
  owner deposits the amount of the expense to its account, so two requests for the same
  expense raise the balance by twice the amount. The expense has a key other than 0,
  as every row that the database has numbered: under the key 0 the save that follows
  the deposit takes the expense for a new one.
\<close>

theorem deactivation_not_idempotent:
  assumes "get_row (expenses d) k = Some e"
      and "expense_user e = user"
      and "get_row (accounts d) (expense_account e) = Some a"
      and "k \<noteq> 0"
  shows "failure (delete_expense user k d) = None
       \<and> balance_of (state_after (delete_expense user k d)) (expense_account e)
           = Some (balance a + expense_amount e)
       \<and> failure (delete_expense user k (state_after (delete_expense user k d))) = None
       \<and> balance_of (state_after (delete_expense user k (state_after (delete_expense user k d))))
             (expense_account e)
           = Some (balance a + 2 * expense_amount e)"
proof -
  let ?d1 = "d\<lparr>accounts := update_row (accounts d) (expense_account e)
                                 (a\<lparr>balance := balance a + expense_amount e\<rparr>),
                expenses := update_row (expenses d) k (e\<lparr>expense_is_active := False\<rparr>)\<rparr>"
  have first: "delete_expense user k d = Inr ?d1"
    using assms
    by (simp add: delete_expense_def get_object_or_404_def atomic_def deposit_related
          Expense_save_old)
  have second: "delete_expense user k ?d1 =
      Inr (?d1\<lparr>accounts := update_row (accounts ?d1) (expense_account e)
                                 (a\<lparr>balance := balance a + expense_amount e + expense_amount e\<rparr>),
                expenses := update_row (expenses ?d1) k (e\<lparr>expense_is_active := False\<rparr>)\<rparr>)"
    using assms
    by (simp add: delete_expense_def get_object_or_404_def atomic_def deposit_related
          Expense_save_old)
  show ?thesis
    unfolding first by (simp add: second balance_of_def)
qed

theorem deactivation_not_idempotent_witness:
  "get_row (expenses sample) 1 =
       Some \<lparr>expense_user = 1, expense_account = 1, expense_category = Some 1,
             expense_title = ''Lunch'', expense_amount = 10000, expense_is_active = True\<rparr>
   \<and> get_row (accounts sample) 1 = Some \<lparr>account_user = 1, balance = 50000, account_is_active = True\<rparr>
   \<and> (1::nat) \<noteq> 0
   \<and> get_row (expenses (state_after (delete_expense 1 1 sample))) 1 =
       Some \<lparr>expense_user = 1, expense_account = 1, expense_category = Some 1,
             expense_title = ''Lunch'', expense_amount = 10000, expense_is_active = False\<rparr>
   \<and> balance_of (state_after (delete_expense 1 1 sample)) 1 = Some 60000
   \<and> balance_of (state_after (delete_expense 1 1 (state_after (delete_expense 1 1 sample)))) 1
       = Some 70000"
proof -
  let ?a = "\<lparr>account_user = 1, balance = 50000, account_is_active = True\<rparr>"
  let ?e = "\<lparr>expense_user = 1, expense_account = 1, expense_category = Some 1,
             expense_title = ''Lunch'', expense_amount = 10000, expense_is_active = True\<rparr>"
  have re: "get_row (expenses sample) (1::nat) = Some ?e" by (simp add: sample_def get_row_def)
  have ru: "expense_user ?e = 1" by simp
  have ra: "get_row (accounts sample) (expense_account ?e) = Some ?a"
    by (simp add: sample_def get_row_def)
  have inactive: "get_row (expenses (state_after (delete_expense 1 1 sample))) 1 =
       Some (?e\<lparr>expense_is_active := False\<rparr>)"
    by (simp add: sample_def delete_expense_def get_object_or_404_def atomic_def
          related_account_def deposit_def Account_save_def Expense_save_def super_save_def
          unsaved_def get_row_def update_row_def)
  have key: "(1::nat) \<noteq> 0" by simp
  from deactivation_not_idempotent [OF re ru ra key] re ra inactive show ?thesis by simp
qed

section \<open>Debts\<close>



section \<open>Ownership\<close>

text \<open>
  C9 does not hold for the code. \<^verbatim>\<open>process_transfer\<close> and the \<^verbatim>\<open>add_debt\<close> and
  \<^verbatim>\<open>make_payment\<close> actions take the posted account keys as they come. Account 1
  belongs to user 1. User 2 moves 200.00 out of it into the own account 3 through
  \<^verbatim>\<open>process_transfer\<close>, where the dashboard's \<^verbatim>\<open>transfer_money\<close> answers the same
  input with \<open>Http404\<close>; lends 200.00 out of it through \<^verbatim>\<open>add_debt\<close>; and, having
  borrowed 200.00 into account 3, pays 100.00 of that debt back out of it through
  \<^verbatim>\<open>make_payment\<close>. \<^verbatim>\<open>add_expense\<close> refuses the foreign account.
\<close>

theorem foreign_account_accepted:
  "map_option account_user (get_row (accounts sample) 1) = Some 1
   \<and> balance_of sample 1 = Some 50000
   \<and> failure (process_transfer 2 (''1'', 1) (''3'', 3) 20000 sample) = None
   \<and> balance_of (state_after (process_transfer 2 (''1'', 1) (''3'', 3) 20000 sample)) 1
       = Some 30000
   \<and> balance_of (state_after (process_transfer 2 (''1'', 1) (''3'', 3) 20000 sample)) 3
       = Some 120000
   \<and> transfer_money 2 1 3 20000 sample = Inl (Http404, sample)
   \<and> failure (add_debt 2 2 1 20000 ''receivable'' sample) = None
   \<and> balance_of (state_after (add_debt 2 2 1 20000 ''receivable'' sample)) 1 = Some 30000
   \<and> map_option debt_user
        (get_row (debts (state_after (add_debt 2 2 3 20000 ''payable'' sample))) 4) = Some 2
   \<and> failure (make_payment 2 4 1 10000
        (state_after (add_debt 2 2 3 20000 ''payable'' sample))) = None
   \<and> balance_of (state_after (make_payment 2 4 1 10000
        (state_after (add_debt 2 2 3 20000 ''payable'' sample)))) 1 = Some 40000
   \<and> add_expense 2 20000 1 1 ''Lunch'' sample = Inl (Http404, sample)"
  by (simp add: sample_def balance_of_def process_transfer_def transfer_money_def add_debt_def
        make_payment_def add_expense_def Transfer_save_def Debt_save_def DebtPayment_save_def
        get_object_or_404_def atomic_def related_account_def withdraw_def deposit_def
        Account_save_def super_save_def get_row_def update_row_def insert_row_def Let_def)

end
